theory Spec2Isabelle
  imports Main
begin

section \<open>JavaScript values used by the converter\<close>

text \<open>
  A JavaScript string is its sequence of UTF-16 code units. The source compares strings with
  literals (\<^verbatim>\<open>'cat'\<close>, \<^verbatim>\<open>'image'\<close>, ...); \<open>js\<close> turns an ASCII literal into its code units.
\<close>

type_synonym jsstring = "nat list"

definition js :: "string \<Rightarrow> jsstring" where
  "js s = map of_char s"

text \<open>
  A value that may be \<^verbatim>\<open>undefined\<close> is an \<open>option\<close> (\<open>None\<close> is \<^verbatim>\<open>undefined\<close>).
  \<open>ToString\<close> is the conversion that \<^verbatim>\<open>parseInt\<close> applies to its argument.
\<close>

definition ToString :: "jsstring option \<Rightarrow> jsstring" where
  "ToString v = (case v of None \<Rightarrow> js ''undefined'' | Some s \<Rightarrow> s)"

text \<open>
  The numbers \<^verbatim>\<open>parseInt\<close> returns: \<^verbatim>\<open>NaN\<close>, an integer that a double holds exactly
  (\<open>Num\<close>, magnitude at most \<open>2 ^ 53\<close>), or the double nearest to a larger integer
  (\<open>Rounded n\<close>; the engine chooses the rounding of \<open>n\<close>). Negative zero is \<open>Num 0\<close>.
\<close>

datatype jsnum = NaN | Num int | Rounded int

text \<open>
  The exceptions of a run: a \<^verbatim>\<open>TypeError\<close> for reading the named property of
  \<^verbatim>\<open>undefined\<close>, the \<^verbatim>\<open>URIError\<close> of \<^verbatim>\<open>decodeURIComponent\<close>, and an error of
  the file system or of a library, with its \<^verbatim>\<open>code\<close> property (\<open>None\<close> when it has none)
  and its message.
\<close>

datatype js_error =
    TypeError jsstring
  | URIError
  | SystemError "jsstring option" jsstring

fun code :: "js_error \<Rightarrow> jsstring option" where
  "code (SystemError c m) = c"
| "code (TypeError p) = None"
| "code URIError = None"

subsection \<open>\<^verbatim>\<open>parseInt(string, 10)\<close>\<close>

text \<open>
  \<^verbatim>\<open>parseInt\<close> skips leading white space (the code units of \<^verbatim>\<open>StrWhiteSpaceChar\<close>), reads
  an optional sign, and takes the longest prefix of decimal digits of what remains. With no
  digit it returns \<^verbatim>\<open>NaN\<close>; it never throws. With radix 10 a \<^verbatim>\<open>0x\<close> prefix is not
  stripped.
\<close>

definition isWhiteSpace :: "nat \<Rightarrow> bool" where
  "isWhiteSpace c \<longleftrightarrow>
     c \<in> {9, 10, 11, 12, 13, 32, 160, 5760, 8232, 8233, 8239, 8287, 12288, 65279}
     \<or> (8192 \<le> c \<and> c \<le> 8202)"

definition isDigit :: "nat \<Rightarrow> bool" where
  "isDigit c \<longleftrightarrow> 48 \<le> c \<and> c \<le> 57"

fun digitsValue :: "int \<Rightarrow> jsstring \<Rightarrow> int" where
  "digitsValue acc [] = acc"
| "digitsValue acc (c # cs) = digitsValue (acc * 10 + (int c - 48)) cs"

definition parseInt :: "jsstring \<Rightarrow> jsnum" where
  "parseInt inputString =
     (let S = dropWhile isWhiteSpace inputString;
          sign = (if S \<noteq> [] \<and> hd S = 45 then - 1 else 1 :: int);
          S' = (if S \<noteq> [] \<and> (hd S = 43 \<or> hd S = 45) then tl S else S);
          Z = takeWhile isDigit S'
      in if Z = [] then NaN
         else let mathInt = sign * digitsValue 0 Z
              in if \<bar>mathInt\<bar> \<le> 2 ^ 53 then Num mathInt else Rounded mathInt)"

section \<open>The parsed package (input of \<^verbatim>\<open>convertToJSON\<close>)\<close>

text \<open>
  Modelled from the spec: the type declarations of \<^verbatim>\<open>./types\<close> (\<^verbatim>\<open>SIGame.Package\<close>,
  \<^verbatim>\<open>SIGame.QuestionData\<close>, \<^verbatim>\<open>SIGame.MediaScenario\<close>, \<^verbatim>\<open>Package\<close>, ...) are missing from
  the sources. The records of this section and of the next ones follow the data model of the
  specification and the property reads of \<^verbatim>\<open>index.ts\<close>.

  The tree that the XML parser hands to \<^verbatim>\<open>convertToJSON\<close>. Each record has the fields
  the code reads: the attributes of a node (\<^verbatim>\<open>$\<close>) and its text (\<^verbatim>\<open>_\<close>, absent on an
  element without text) and its child lists. A field the code tests before use
  (\<^verbatim>\<open>question.info\<close>, \<^verbatim>\<open>question.type\<close>, \<^verbatim>\<open>param\<close>) is optional; an attribute or
  a child list that the code reads without a test is present, and a child list may be empty.
  The \<^verbatim>\<open>comments\<close> of an info block are the exception: the parser gives a block without
  comments no \<^verbatim>\<open>comments\<close> key at all, so that field is optional although the code reads
  it without a test.
\<close>

record param_data =
  param_name :: jsstring
  param_text :: "jsstring option"

record type_data =
  type_name :: jsstring
  param :: "param_data list option"

record info_data =
  comments :: "jsstring list option"

record right_data =
  answer :: "jsstring list"

record media_scenario =
  ms_type :: jsstring
  ms_text :: "jsstring option"

datatype scenario_atom = Literal jsstring | Media media_scenario

record scenario_data =
  atom :: "scenario_atom list"

record question_data =
  price :: jsstring
  right :: "right_data list"
  info :: "info_data list option"
  qtype_node :: "type_data list option"
  scenario :: "scenario_data list"

section \<open>The normalized question (output)\<close>

record task =
  task_text :: jsstring
  images :: "jsstring list"
  sounds :: "jsstring list"
  video :: "jsstring list"

record question =
  points :: jsnum
  mode :: jsstring
  qtype :: jsstring
  answers :: "jsstring list"
  task :: task
  explanation :: "jsstring option"

text \<open>The lines that \<^verbatim>\<open>console.warn\<close> has written so far, oldest first.\<close>

type_synonym console = "jsstring list"

section \<open>Question mapping\<close>

text \<open>
  Lines 90 to 102: the initial question. \<^verbatim>\<open>question.right[0].answer\<close> throws when the
  list \<^verbatim>\<open>right\<close> is empty.
\<close>

definition newQuestion :: "question_data \<Rightarrow> js_error + question" where
  "newQuestion qd =
     (case right qd of
        [] \<Rightarrow> Inl (TypeError (js ''answer''))
      | r # _ \<Rightarrow>
          Inr \<lparr> points = parseInt (price qd),
                mode = js ''default'',
                qtype = js ''plain'',
                answers = answer r,
                task = \<lparr> task_text = [], images = [], sounds = [], video = [] \<rparr>,
                explanation = Some [] \<rparr>)"

text \<open>
  Lines 104 to 106: \<^verbatim>\<open>if (question.info) q.explanation = question.info[0].comments[0]\<close>.
  Every array is truthy, and the test looks at the info block only: when the block has no
  \<^verbatim>\<open>comments\<close> key, reading element \<^verbatim>\<open>0\<close> of \<^verbatim>\<open>undefined\<close> throws. The first element
  of an empty \<^verbatim>\<open>comments\<close> array is \<^verbatim>\<open>undefined\<close>.
\<close>

definition setInfo :: "info_data list option \<Rightarrow> question \<Rightarrow> js_error + question" where
  "setInfo qinfo q =
     (case qinfo of
        None \<Rightarrow> Inr q
      | Some [] \<Rightarrow> Inl (TypeError (js ''comments''))
      | Some (i # _) \<Rightarrow>
          (case comments i of
             None \<Rightarrow> Inl (TypeError (js ''0''))
           | Some [] \<Rightarrow> Inr (q\<lparr>explanation := None\<rparr>)
           | Some (c # _) \<Rightarrow> Inr (q\<lparr>explanation := Some c\<rparr>)))"

text \<open>Lines 115 to 126: the loop over the parameters of a category-wager type.\<close>

fun forParams :: "param_data list \<Rightarrow> question \<Rightarrow> question" where
  "forParams [] q = q"
| "forParams (p # ps) q =
     forParams ps
       (if param_name p = js ''cost'' then q\<lparr>points := parseInt (ToString (param_text p))\<rparr>
        else if param_name p = js ''theme'' then q\<lparr>explanation := param_text p\<rparr>
        else q)"

text \<open>Lines 108 to 132: the switch on the declared type name.\<close>

definition setType :: "type_data list option \<Rightarrow> question \<Rightarrow> js_error + question" where
  "setType ty q =
     (case ty of
        None \<Rightarrow> Inr q
      | Some [] \<Rightarrow> Inl (TypeError (js ''$''))
      | Some (t # _) \<Rightarrow>
          (let typeName = type_name t
           in if typeName = js ''cat'' \<or> typeName = js ''bagcat''
              then (let q' = q\<lparr>mode := js ''delegate''\<rparr>
                    in case param t of
                         None \<Rightarrow> Inr q'
                       | Some ps \<Rightarrow> Inr (forParams ps q'))
              else Inr (q\<lparr>mode := typeName\<rparr>)))"

text \<open>
  Lines 134 to 153. \<^verbatim>\<open>String.prototype.replace\<close> with a string pattern replaces the first
  occurrence of the pattern, here the first \<^verbatim>\<open>@\<close> (code unit 64) wherever it stands, which
  is \<open>remove1\<close>. \<^verbatim>\<open>path.normalize\<close> belongs to the platform (POSIX or Windows rules) and is
  the parameter \<open>path_normalize\<close>. Reading \<^verbatim>\<open>replace\<close> of an absent text throws.
\<close>

definition warning :: "jsstring \<Rightarrow> jsstring" where
  "warning ty =
     js ''Detected unhandled scenario type \"'' @ ty
       @ js ''. Please open a ticket to support it''"

definition mediaPath :: "(jsstring \<Rightarrow> jsstring) \<Rightarrow> jsstring option \<Rightarrow> js_error + jsstring" where
  "mediaPath path_normalize t =
     (case t of
        None \<Rightarrow> Inl (TypeError (js ''replace''))
      | Some s \<Rightarrow> Inr (path_normalize (remove1 64 s)))"

definition setQuestionMediaTask ::
  "(jsstring \<Rightarrow> jsstring) \<Rightarrow> media_scenario \<Rightarrow> question \<Rightarrow> console
     \<Rightarrow> (js_error + question) \<times> console" where
  "setQuestionMediaTask path_normalize mediaScenario q c =
     (if ms_type mediaScenario = js ''image'' then
        (case mediaPath path_normalize (ms_text mediaScenario) of
           Inl e \<Rightarrow> (Inl e, c)
         | Inr p \<Rightarrow> (Inr (q\<lparr>task := (task q)\<lparr>images := images (task q) @ [p]\<rparr>\<rparr>), c))
      else if ms_type mediaScenario = js ''voice'' then
        (case mediaPath path_normalize (ms_text mediaScenario) of
           Inl e \<Rightarrow> (Inl e, c)
         | Inr p \<Rightarrow> (Inr (q\<lparr>task := (task q)\<lparr>sounds := sounds (task q) @ [p]\<rparr>\<rparr>), c))
      else if ms_type mediaScenario = js ''video'' then
        (case mediaPath path_normalize (ms_text mediaScenario) of
           Inl e \<Rightarrow> (Inl e, c)
         | Inr p \<Rightarrow> (Inr (q\<lparr>task := (task q)\<lparr>video := video (task q) @ [p]\<rparr>\<rparr>), c))
      else if ms_type mediaScenario = js ''say'' then
        (Inr (q\<lparr>explanation := ms_text mediaScenario\<rparr>), c)
      else if ms_type mediaScenario = js ''marker'' then
        (Inr q, c)
      else
        (Inr q, c @ [warning (ms_type mediaScenario)]))"

text \<open>Lines 161 to 167: the loop over a scenario of more than one entry.\<close>

fun forScenario ::
  "(jsstring \<Rightarrow> jsstring) \<Rightarrow> scenario_atom list \<Rightarrow> question \<Rightarrow> console
     \<Rightarrow> (js_error + question) \<times> console" where
  "forScenario path_normalize [] q c = (Inr q, c)"
| "forScenario path_normalize (Literal s # rest) q c =
     forScenario path_normalize rest (q\<lparr>task := (task q)\<lparr>task_text := s\<rparr>\<rparr>) c"
| "forScenario path_normalize (Media m # rest) q c =
     (case setQuestionMediaTask path_normalize m q c of
        (Inl e, c') \<Rightarrow> (Inl e, c')
      | (Inr q', c') \<Rightarrow> forScenario path_normalize rest q' c')"

text \<open>
  Lines 155 to 171. With an empty entry list \<^verbatim>\<open>scenarioDetails[0]\<close> is \<^verbatim>\<open>undefined\<close> and
  reading its \<^verbatim>\<open>$\<close> throws. The last case cannot be reached (a single string entry takes
  the first branch); a string has no \<^verbatim>\<open>$\<close>, so it would throw as well.
\<close>

definition setScenario ::
  "(jsstring \<Rightarrow> jsstring) \<Rightarrow> scenario_data list \<Rightarrow> question \<Rightarrow> console
     \<Rightarrow> (js_error + question) \<times> console" where
  "setScenario path_normalize sc q c =
     (case sc of
        [] \<Rightarrow> (Inl (TypeError (js ''atom'')), c)
      | s # _ \<Rightarrow>
          (let scenarioDetails = atom s
           in case scenarioDetails of
                [Literal t] \<Rightarrow> (Inr (q\<lparr>task := (task q)\<lparr>task_text := t\<rparr>\<rparr>), c)
              | _ \<Rightarrow>
                  (let q' = q\<lparr>qtype := js ''media''\<rparr>
                   in if length scenarioDetails > 1
                      then forScenario path_normalize scenarioDetails q' c
                      else (case scenarioDetails of
                              [] \<Rightarrow> (Inl (TypeError (js ''$'')), c)
                            | Media m # _ \<Rightarrow> setQuestionMediaTask path_normalize m q' c
                            | Literal t # _ \<Rightarrow> (Inl (TypeError (js ''type'')), c)))))"

text \<open>Lines 89 to 174: the callback that maps one question node.\<close>

definition convertQuestion ::
  "(jsstring \<Rightarrow> jsstring) \<Rightarrow> question_data \<Rightarrow> console \<Rightarrow> (js_error + question) \<times> console" where
  "convertQuestion path_normalize qd c =
     (case newQuestion qd of
        Inl e \<Rightarrow> (Inl e, c)
      | Inr q0 \<Rightarrow>
          (case setInfo (info qd) q0 of
             Inl e \<Rightarrow> (Inl e, c)
           | Inr q1 \<Rightarrow>
               (case setType (qtype_node qd) q1 of
                  Inl e \<Rightarrow> (Inl e, c)
                | Inr q2 \<Rightarrow> setScenario path_normalize (scenario qd) q2 c)))"

section \<open>Package mapping\<close>

text \<open>
  \<^verbatim>\<open>unWrap\<close> (lines 70 to 75) folds a list with a callback and concatenates what the
  callback returns when that is an array, and appends it otherwise. The callbacks of
  \<^verbatim>\<open>convertToJSON\<close> may throw and may write warnings, so the model threads both.
\<close>

datatype 'b retrieved = Single 'b | Array "'b list"

fun unWrap ::
  "'a list \<Rightarrow> ('a \<Rightarrow> console \<Rightarrow> (js_error + 'b retrieved) \<times> console) \<Rightarrow> console
     \<Rightarrow> (js_error + 'b list) \<times> console" where
  "unWrap [] onEntry c = (Inr [], c)"
| "unWrap (entry # array) onEntry c =
     (case onEntry entry c of
        (Inl e, c') \<Rightarrow> (Inl e, c')
      | (Inr retrievedEntry, c') \<Rightarrow>
          (case unWrap array onEntry c' of
             (Inl e, c'') \<Rightarrow> (Inl e, c'')
           | (Inr acc, c'') \<Rightarrow>
               (Inr ((case retrievedEntry of Single y \<Rightarrow> [y] | Array ys \<Rightarrow> ys) @ acc), c'')))"

record author_data =
  author :: "jsstring list"

record package_info =
  authors :: "author_data list option"

record questions_data =
  question :: "question_data list"

record theme_data =
  theme_name :: jsstring
  questions :: "questions_data list"

record themes_data =
  theme :: "theme_data list"

record round_data =
  round_name :: jsstring
  themes :: "themes_data list"

record rounds_data =
  round :: "round_data list"

record package_data =
  pkg_id :: jsstring
  pkg_name :: jsstring
  pkg_version :: jsstring
  pkg_difficulty :: jsstring
  pkg_restriction :: jsstring
  pkg_date :: jsstring
  pkg_info :: "package_info list"
  rounds :: "rounds_data list"

record theme_out =
  out_theme_name :: jsstring
  out_questions :: "question list"

record round_out =
  out_round_name :: jsstring
  out_themes :: "theme_out list"

record metadata =
  version :: jsstring
  createdBy :: "jsstring list"
  difficulty :: jsstring
  restriction :: jsstring
  createdAt :: jsstring

record package =
  out_id :: jsstring
  out_name :: jsstring
  out_rounds :: "round_out list"
  out_metadata :: metadata

text \<open>Lines 86 to 176: the callback that maps one theme.\<close>

definition convertTheme ::
  "(jsstring \<Rightarrow> jsstring) \<Rightarrow> theme_data \<Rightarrow> console
     \<Rightarrow> (js_error + theme_out retrieved) \<times> console" where
  "convertTheme path_normalize th c =
     (case questions th of
        [] \<Rightarrow> (Inl (TypeError (js ''question'')), c)
      | qs # _ \<Rightarrow>
          (case unWrap (question qs)
                  (\<lambda>qd c. case convertQuestion path_normalize qd c of
                             (Inl e, c') \<Rightarrow> (Inl e, c')
                           | (Inr q, c') \<Rightarrow> (Inr (Single q), c')) c of
             (Inl e, c') \<Rightarrow> (Inl e, c')
           | (Inr converted, c') \<Rightarrow>
               (Inr (Single \<lparr> out_theme_name = theme_name th, out_questions = converted \<rparr>), c')))"

text \<open>Lines 83 to 178: the callback that maps one round.\<close>

definition convertRound ::
  "(jsstring \<Rightarrow> jsstring) \<Rightarrow> round_data \<Rightarrow> console
     \<Rightarrow> (js_error + round_out retrieved) \<times> console" where
  "convertRound path_normalize rd c =
     (case themes rd of
        [] \<Rightarrow> (Inl (TypeError (js ''theme'')), c)
      | ths # _ \<Rightarrow>
          (case unWrap (theme ths) (convertTheme path_normalize) c of
             (Inl e, c') \<Rightarrow> (Inl e, c')
           | (Inr converted, c') \<Rightarrow>
               (Inr (Single \<lparr> out_round_name = round_name rd, out_themes = converted \<rparr>), c')))"

text \<open>
  Lines 77 to 192. The authors come from the first info block that has an \<^verbatim>\<open>authors\<close>
  list; its callback returns the array \<^verbatim>\<open>obj.author\<close>, which \<^verbatim>\<open>unWrap\<close> concatenates.
\<close>

definition convertToJSON ::
  "(jsstring \<Rightarrow> jsstring) \<Rightarrow> package_data \<Rightarrow> console \<Rightarrow> (js_error + package) \<times> console" where
  "convertToJSON path_normalize gamePackage c =
     (case (case find (\<lambda>entry. authors entry \<noteq> None) (pkg_info gamePackage) of
              None \<Rightarrow> (Inr [], c)
            | Some authorsInfo \<Rightarrow>
                unWrap (case authors authorsInfo of None \<Rightarrow> [] | Some as \<Rightarrow> as)
                  (\<lambda>obj c. (Inr (Array (author obj)), c)) c) of
        (Inl e, c') \<Rightarrow> (Inl e, c')
      | (Inr authorNames, c') \<Rightarrow>
          (case rounds gamePackage of
             [] \<Rightarrow> (Inl (TypeError (js ''round'')), c')
           | rs # _ \<Rightarrow>
               (case unWrap (round rs) (convertRound path_normalize) c' of
                  (Inl e, c'') \<Rightarrow> (Inl e, c'')
                | (Inr gameRounds, c'') \<Rightarrow>
                    (Inr \<lparr> out_id = pkg_id gamePackage,
                           out_name = pkg_name gamePackage,
                           out_rounds = gameRounds,
                           out_metadata =
                             \<lparr> version = pkg_version gamePackage,
                               createdBy = authorNames,
                               difficulty = pkg_difficulty gamePackage,
                               restriction = pkg_restriction gamePackage,
                               createdAt = pkg_date gamePackage \<rparr> \<rparr>, c''))))"

section \<open>Archive entries: recovery of the file name\<close>

subsection \<open>\<^verbatim>\<open>decodeURIComponent\<close>\<close>

text \<open>
  The \<^verbatim>\<open>Decode\<close> operation of ECMAScript with an empty reserved set. A \<^verbatim>\<open>%\<close> (code unit
  37) must be followed by two hexadecimal digits. An octet below 128 stands for itself; an
  octet with two, three or four leading one bits starts a UTF-8 sequence whose other octets
  are escapes of the form \<^verbatim>\<open>%10xxxxxx\<close>, and the sequence must be the shortest encoding of
  a code point that is no surrogate and at most \<^verbatim>\<open>0x10FFFF\<close>. Everything else throws a
  \<^verbatim>\<open>URIError\<close>. The result holds the code point as UTF-16.
\<close>

definition hexValue :: "nat \<Rightarrow> nat option" where
  "hexValue c =
     (if 48 \<le> c \<and> c \<le> 57 then Some (c - 48)
      else if 65 \<le> c \<and> c \<le> 70 then Some (c - 55)
      else if 97 \<le> c \<and> c \<le> 102 then Some (c - 87)
      else None)"

definition hexByte :: "jsstring \<Rightarrow> nat option" where
  "hexByte cs =
     (case cs of
        h # l # _ \<Rightarrow>
          (case hexValue h of
             None \<Rightarrow> None
           | Some a \<Rightarrow> (case hexValue l of None \<Rightarrow> None | Some b \<Rightarrow> Some (16 * a + b)))
      | _ \<Rightarrow> None)"

definition leadingOnes :: "nat \<Rightarrow> nat" where
  "leadingOnes B =
     (if B < 128 then 0 else if B < 192 then 1 else if B < 224 then 2
      else if B < 240 then 3 else if B < 248 then 4 else 5)"

fun contOctets :: "nat \<Rightarrow> jsstring \<Rightarrow> nat list option" where
  "contOctets 0 cs = Some []"
| "contOctets (Suc j) [] = None"
| "contOctets (Suc j) (p # rest) =
     (if p \<noteq> 37 then None
      else case hexByte rest of
             None \<Rightarrow> None
           | Some B \<Rightarrow>
               if B < 128 \<or> 192 \<le> B then None
               else (case contOctets j (drop 2 rest) of
                       None \<Rightarrow> None
                     | Some Octets \<Rightarrow> Some (B # Octets)))"

definition utf8Value :: "nat list \<Rightarrow> nat option" where
  "utf8Value Octets =
     (case Octets of
        [a, b] \<Rightarrow>
          (let V = (a - 192) * 64 + (b - 128)
           in if 128 \<le> V then Some V else None)
      | [a, b, c] \<Rightarrow>
          (let V = (a - 224) * 4096 + (b - 128) * 64 + (c - 128)
           in if 2048 \<le> V \<and> \<not> (55296 \<le> V \<and> V \<le> 57343) then Some V else None)
      | [a, b, c, d] \<Rightarrow>
          (let V = (a - 240) * 262144 + (b - 128) * 4096 + (c - 128) * 64 + (d - 128)
           in if 65536 \<le> V \<and> V \<le> 1114111 then Some V else None)
      | _ \<Rightarrow> None)"

definition utf16 :: "nat \<Rightarrow> jsstring" where
  "utf16 V =
     (if V < 65536 then [V]
      else [55296 + (V - 65536) div 1024, 56320 + (V - 65536) mod 1024])"

fun decodeURIComponent :: "jsstring \<Rightarrow> js_error + jsstring" where
  "decodeURIComponent [] = Inr []"
| "decodeURIComponent (C # rest) =
     (if C \<noteq> 37 then
        (case decodeURIComponent rest of Inl e \<Rightarrow> Inl e | Inr R \<Rightarrow> Inr (C # R))
      else
        (case hexByte rest of
           None \<Rightarrow> Inl URIError
         | Some B \<Rightarrow>
             if leadingOnes B = 0 then
               (case decodeURIComponent (drop 2 rest) of
                  Inl e \<Rightarrow> Inl e
                | Inr R \<Rightarrow> Inr (B # R))
             else if leadingOnes B = 1 \<or> leadingOnes B > 4 then Inl URIError
             else
               (case contOctets (leadingOnes B - 1) (drop 2 rest) of
                  None \<Rightarrow> Inl URIError
                | Some Octets \<Rightarrow>
                    (case utf8Value (B # Octets) of
                       None \<Rightarrow> Inl URIError
                     | Some V \<Rightarrow>
                         (case decodeURIComponent (drop (2 + 3 * (leadingOnes B - 1)) rest) of
                            Inl e \<Rightarrow> Inl e
                          | Inr R \<Rightarrow> Inr (utf16 V @ R))))))"

subsection \<open>Code page 866\<close>

text \<open>
  \<^verbatim>\<open>il.decode(buffer, 'cp866')\<close> maps each byte to one code unit: ASCII below 128, the
  Cyrillic letters, the box-drawing block, and the sixteen symbols of the last row.
\<close>

definition cp866_box :: "nat list" where
  "cp866_box =
     [9617, 9618, 9619, 9474, 9508, 9569, 9570, 9558, 9557, 9571, 9553, 9559, 9565, 9564,
      9563, 9488, 9492, 9524, 9516, 9500, 9472, 9532, 9566, 9567, 9562, 9556, 9577, 9574,
      9568, 9552, 9580, 9575, 9576, 9572, 9573, 9561, 9560, 9554, 9555, 9579, 9578, 9496,
      9484, 9608, 9604, 9612, 9616, 9600]"

definition cp866_last :: "nat list" where
  "cp866_last =
     [1025, 1105, 1028, 1108, 1031, 1111, 1038, 1118, 176, 8729, 183, 8730, 8470, 164,
      9632, 160]"

definition cp866 :: "nat \<Rightarrow> nat" where
  "cp866 b =
     (let byte = b mod 256
      in if byte < 128 then byte
         else if byte < 176 then byte - 128 + 1040
         else if byte < 224 then cp866_box ! (byte - 176)
         else if byte < 240 then byte - 224 + 1088
         else cp866_last ! (byte - 240))"

subsection \<open>The entry handler of \<^verbatim>\<open>unzip\<close>\<close>

text \<open>
  An entry as \<^verbatim>\<open>unzipper.Parse()\<close> emits it: \<^verbatim>\<open>entry.path\<close> (the stored name read as
  UTF-8), the stored bytes \<^verbatim>\<open>entry.props.pathBuffer\<close>, and the Unicode flag of the archive
  (bit 11 of the general purpose flags: the stored name is UTF-8), which the library keeps
  under \<^verbatim>\<open>entry.props.flags\<close>.
\<close>

record entry =
  path :: jsstring
  pathBuffer :: "nat list"
  unicodeFlag :: bool

text \<open>
  Line 52 reads \<^verbatim>\<open>entry.isUnicode\<close>. The entries of \<^verbatim>\<open>unzipper.Parse()\<close> have no property
  of that name, so the read gives \<^verbatim>\<open>undefined\<close> for every entry, whatever its flag.
\<close>

definition isUnicode :: "entry \<Rightarrow> bool option" where
  "isUnicode e = None"

text \<open>Lines 51 to 55; \<^verbatim>\<open>undefined\<close> is falsy.\<close>

definition decodedFileName :: "entry \<Rightarrow> js_error + jsstring" where
  "decodedFileName e =
     decodeURIComponent
       (if isUnicode e = Some True then path e else map cp866 (pathBuffer e))"

section \<open>The run: checks of the command line and the promise chain\<close>

text \<open>
  What a run writes to the error stream: a warning of \<^verbatim>\<open>console.warn\<close>, a yellow line of
  the two checks before the chain, or the red line
  \<^verbatim>\<open>'Failed to parse the file: '\<close> followed by the message of the error caught.
\<close>

datatype output_line = Warned jsstring | Yellow jsstring | FailedToParse js_error

text \<open>
  The outcome of every operation of the platform during one run: what \<^verbatim>\<open>path.extname\<close>
  returns, whether the archive exists, and for each asynchronous step the error it is rejected
  with (\<open>None\<close> when it succeeds). \<open>parsed\<close> is the result of the XML parser; \<open>Inr None\<close>
  is a document without a \<^verbatim>\<open>package\<close> root. \<open>cleanup\<close> holds the outcomes of the three
  deletions of lines 225 to 227.
\<close>

record world =
  extname :: jsstring
  zipFilePath :: jsstring
  zipExists :: bool
  unzipped :: "js_error option"
  readFile :: "js_error option"
  parsed :: "js_error + package_data option"
  written :: "js_error option"
  renamedExists :: bool
  removedOld :: "js_error option"
  renamed :: "js_error option"
  cleanup :: "js_error option list"

text \<open>\<^verbatim>\<open>Promise.allSettled\<close> is fulfilled whatever the outcomes of its promises.\<close>

definition allSettled :: "js_error option list \<Rightarrow> js_error option" where
  "allSettled results = None"

text \<open>Lines 230 to 234: the handler at the end of the chain.\<close>

definition onRejected :: "js_error \<Rightarrow> output_line list" where
  "onRejected error = (if code error \<noteq> Some (js ''ENOENT'') then [FailedToParse error] else [])"

text \<open>Lines 201 to 234: a rejected step skips the steps after it and reaches the handler.\<close>

definition chain :: "(jsstring \<Rightarrow> jsstring) \<Rightarrow> world \<Rightarrow> output_line list" where
  "chain path_normalize w =
     (case unzipped w of
        Some e \<Rightarrow> onRejected e
      | None \<Rightarrow>
     (case readFile w of
        Some e \<Rightarrow> onRejected e
      | None \<Rightarrow>
     (case parsed w of
        Inl e \<Rightarrow> onRejected e
      | Inr None \<Rightarrow> onRejected (TypeError (js ''$''))
      | Inr (Some parcedPackage) \<Rightarrow>
     (case convertToJSON path_normalize parcedPackage [] of
        (Inl e, c) \<Rightarrow> map Warned c @ onRejected e
      | (Inr convertedJSON, c) \<Rightarrow>
          map Warned c @
     (case written w of
        Some e \<Rightarrow> onRejected e
      | None \<Rightarrow>
     (case (if renamedExists w then removedOld w else None) of
        Some e \<Rightarrow> onRejected e
      | None \<Rightarrow>
     (case renamed w of
        Some e \<Rightarrow> onRejected e
      | None \<Rightarrow>
     (case allSettled (cleanup w) of
        Some e \<Rightarrow> onRejected e
      | None \<Rightarrow> []))))))))"

text \<open>
  Lines 21 to 39 and the chain: the lines written to the error stream and the exit code of
  the process. Only the two checks call \<^verbatim>\<open>process.exit(1)\<close>; a run that reaches the chain
  ends when the chain has settled, with exit code 0.
\<close>

definition main :: "(jsstring \<Rightarrow> jsstring) \<Rightarrow> world \<Rightarrow> output_line list \<times> nat" where
  "main path_normalize w =
     (let extension = (if extname w = [] then js ''.siq'' else extname w)
      in if extension \<noteq> js ''.siq'' then
           ([Yellow (js ''Unsupported file extension'')], 1)
         else if \<not> zipExists w then
           ([Yellow (js ''Unable to locate file at'' @ js '' '' @ zipFilePath w)], 1)
         else (chain path_normalize w, 0))"

section \<open>The precedence rules as the specification words them\<close>

text \<open>
  The specification describes the explanation of a question by precedence: a \<^verbatim>\<open>say\<close> entry
  of the scenario over a \<^verbatim>\<open>theme\<close> parameter of a category wager over the first comment
  of the info block over the empty default. The definitions below follow these words, not the
  code; among several writers of one kind the last one counts.
\<close>

definition lastParam :: "jsstring \<Rightarrow> param_data list \<Rightarrow> param_data option" where
  "lastParam n ps =
     (case filter (\<lambda>p. param_name p = n) ps of [] \<Rightarrow> None | x # xs \<Rightarrow> Some (last (x # xs)))"

definition wagerParams :: "question_data \<Rightarrow> param_data list" where
  "wagerParams qd =
     (case qtype_node qd of
        Some (t # _) \<Rightarrow>
          if type_name t = js ''cat'' \<or> type_name t = js ''bagcat''
          then (case param t of None \<Rightarrow> [] | Some ps \<Rightarrow> ps)
          else []
      | _ \<Rightarrow> [])"

definition scenarioEntries :: "question_data \<Rightarrow> scenario_atom list" where
  "scenarioEntries qd = (case scenario qd of [] \<Rightarrow> [] | s # _ \<Rightarrow> atom s)"

fun sayTexts :: "scenario_atom list \<Rightarrow> jsstring option list" where
  "sayTexts [] = []"
| "sayTexts (Literal s # rest) = sayTexts rest"
| "sayTexts (Media m # rest) =
     (if ms_type m = js ''say'' then ms_text m # sayTexts rest else sayTexts rest)"

definition lastSay :: "scenario_atom list \<Rightarrow> jsstring option option" where
  "lastSay entries =
     (case sayTexts entries of [] \<Rightarrow> None | x # xs \<Rightarrow> Some (last (x # xs)))"

definition infoComment :: "question_data \<Rightarrow> jsstring option" where
  "infoComment qd =
     (case info qd of
        Some (i # _) \<Rightarrow>
          (case comments i of None \<Rightarrow> Some [] | Some [] \<Rightarrow> None | Some (c # _) \<Rightarrow> Some c)
      | _ \<Rightarrow> Some [])"

definition explanationPrecedence :: "question_data \<Rightarrow> jsstring option" where
  "explanationPrecedence qd =
     (case lastSay (scenarioEntries qd) of
        Some said \<Rightarrow> said
      | None \<Rightarrow>
          (case lastParam (js ''theme'') (wagerParams qd) of
             Some p \<Rightarrow> param_text p
           | None \<Rightarrow> infoComment qd))"

section \<open>Properties of the question mapping\<close>

lemma js_names [simp]:
  "js ''cost'' \<noteq> js ''theme''" "js ''cat'' \<noteq> js ''bagcat''"
  by (simp_all add: js_def)

lemma lastParam_Nil [simp]: "lastParam n [] = None"
  by (simp add: lastParam_def)

lemma lastParam_Cons:
  "lastParam n (p # ps) =
     (case lastParam n ps of Some r \<Rightarrow> Some r
      | None \<Rightarrow> if param_name p = n then Some p else None)"
  by (simp add: lastParam_def split: list.splits)

lemma forParams_fields:
  "forParams ps q =
     q\<lparr>points := (case lastParam (js ''cost'') ps of None \<Rightarrow> points q
                   | Some p \<Rightarrow> parseInt (ToString (param_text p))),
       explanation := (case lastParam (js ''theme'') ps of None \<Rightarrow> explanation q
                   | Some p \<Rightarrow> param_text p)\<rparr>"
proof (induction ps arbitrary: q)
  case Nil
  show ?case by simp
next
  case (Cons p ps)
  show ?case
    by (simp add: Cons.IH lastParam_Cons split: option.splits)
qed

lemma lastSay_Nil [simp]: "lastSay [] = None"
  by (simp add: lastSay_def)

lemma lastSay_Literal [simp]: "lastSay (Literal s # as) = lastSay as"
  by (simp add: lastSay_def)

lemma lastSay_Media:
  "lastSay (Media m # as) =
     (case lastSay as of Some s \<Rightarrow> Some s
      | None \<Rightarrow> if ms_type m = js ''say'' then Some (ms_text m) else None)"
  by (simp add: lastSay_def split: list.splits)

lemma setQuestionMediaTask_frame:
  assumes "setQuestionMediaTask nz m q c = (Inr r, c')"
  shows "mode r = mode q" "points r = points q" "qtype r = qtype q" "answers r = answers q"
    "task_text (task r) = task_text (task q)"
    "explanation r = (if ms_type m = js ''say'' then ms_text m else explanation q)"
  using assms
  by (auto simp add: setQuestionMediaTask_def js_def split: if_splits sum.splits)

lemma forScenario_frame:
  assumes "forScenario nz as q c = (Inr r, c')"
  shows "mode r = mode q \<and> points r = points q \<and> qtype r = qtype q \<and> answers r = answers q \<and>
    explanation r = (case lastSay as of None \<Rightarrow> explanation q | Some s \<Rightarrow> s)"
  using assms
proof (induction as arbitrary: q c)
  case Nil
  then show ?case by simp
next
  case (Cons a as)
  show ?case
  proof (cases a)
    case (Literal s)
    with Cons.prems have "forScenario nz as (q\<lparr>task := (task q)\<lparr>task_text := s\<rparr>\<rparr>) c = (Inr r, c')"
      by simp
    from Cons.IH [OF this] show ?thesis using Literal by (simp split: option.splits)
  next
    case (Media m)
    with Cons.prems obtain q1 c1 where
      step: "setQuestionMediaTask nz m q c = (Inr q1, c1)" and
      rest: "forScenario nz as q1 c1 = (Inr r, c')"
      by (auto split: prod.splits sum.splits)
    from Cons.IH [OF rest] setQuestionMediaTask_frame [OF step] show ?thesis
      using Media by (simp add: lastSay_Media split: option.splits)
  qed
qed


lemma setScenario_Nil:
  "setScenario nz [] q c = (Inl (TypeError (js ''atom'')), c)"
  by (simp add: setScenario_def)

lemma setScenario_empty:
  "atom s = [] \<Longrightarrow> setScenario nz (s # ss) q c = (Inl (TypeError (js ''$'')), c)"
  by (simp add: setScenario_def)

lemma setScenario_literal:
  "atom s = [Literal t] \<Longrightarrow>
     setScenario nz (s # ss) q c = (Inr (q\<lparr>task := (task q)\<lparr>task_text := t\<rparr>\<rparr>), c)"
  by (simp add: setScenario_def)

lemma setScenario_media:
  "atom s = [Media m] \<Longrightarrow>
     setScenario nz (s # ss) q c = setQuestionMediaTask nz m (q\<lparr>qtype := js ''media''\<rparr>) c"
  by (simp add: setScenario_def)

lemma setScenario_many:
  "atom s = a # b # rest \<Longrightarrow>
     setScenario nz (s # ss) q c = forScenario nz (a # b # rest) (q\<lparr>qtype := js ''media''\<rparr>) c"
  by (simp add: setScenario_def Let_def split: scenario_atom.splits list.splits)

lemma atoms_shape:
  obtains (empty) "xs = []"
    | (literal) t where "xs = [Literal t]"
    | (media) m where "xs = [Media m]"
    | (many) a b rest where "xs = a # b # rest"
proof (cases xs)
  case Nil
  then show ?thesis using empty by simp
next
  case (Cons a ys)
  show ?thesis
  proof (cases ys)
    case Nil
    with Cons show ?thesis using literal media by (cases a) simp_all
  next
    case (Cons b rest)
    with \<open>xs = a # ys\<close> show ?thesis using many by simp
  qed
qed

lemma setScenario_frame:
  assumes "setScenario nz sc q c = (Inr r, c')"
  shows "\<exists>s ss. sc = s # ss \<and> mode r = mode q \<and> points r = points q \<and> answers r = answers q \<and>
    explanation r = (case lastSay (atom s) of None \<Rightarrow> explanation q | Some x \<Rightarrow> x) \<and>
    (\<forall>t. atom s = [Literal t] \<longrightarrow> r = q\<lparr>task := (task q)\<lparr>task_text := t\<rparr>\<rparr> \<and> c' = c) \<and>
    ((\<forall>t. atom s \<noteq> [Literal t]) \<longrightarrow> qtype r = js ''media'')"
proof (cases sc)
  case Nil
  with assms show ?thesis by (simp add: setScenario_Nil)
next
  case (Cons s ss)
  show ?thesis
  proof (cases "atom s" rule: atoms_shape)
    case empty
    with assms Cons show ?thesis by (simp add: setScenario_empty)
  next
    case (literal t)
    with assms Cons show ?thesis by (auto simp add: setScenario_literal)
  next
    case (media m)
    with assms Cons have "setQuestionMediaTask nz m (q\<lparr>qtype := js ''media''\<rparr>) c = (Inr r, c')"
      by (simp add: setScenario_media)
    from setQuestionMediaTask_frame [OF this] show ?thesis
      using Cons media by (simp add: lastSay_Media split: option.splits)
  next
    case (many a b rest)
    with assms Cons have "forScenario nz (atom s) (q\<lparr>qtype := js ''media''\<rparr>) c = (Inr r, c')"
      by (simp add: setScenario_many)
    from forScenario_frame [OF this] show ?thesis
      using Cons many by (simp split: option.splits)
  qed
qed


lemma convertQuestion_steps:
  assumes "convertQuestion nz qd c = (Inr r, c')"
  obtains q0 q1 q2 where
    "newQuestion qd = Inr q0" "setInfo (info qd) q0 = Inr q1"
    "setType (qtype_node qd) q1 = Inr q2" "setScenario nz (scenario qd) q2 c = (Inr r, c')"
  using assms by (auto simp add: convertQuestion_def split: sum.splits)

lemma newQuestion_Inr:
  assumes "newQuestion qd = Inr q0"
  shows "points q0 = parseInt (price qd)" "mode q0 = js ''default''" "qtype q0 = js ''plain''"
    "task q0 = \<lparr> task_text = [], images = [], sounds = [], video = [] \<rparr>"
    "explanation q0 = Some []"
  using assms by (auto simp add: newQuestion_def split: list.splits)

lemma setInfo_Inr:
  assumes "setInfo (info qd) q = Inr q1"
  shows "q1 = q\<lparr>explanation := (case info qd of None \<Rightarrow> explanation q | Some _ \<Rightarrow> infoComment qd)\<rparr>"
  using assms by (auto simp add: setInfo_def infoComment_def split: option.splits list.splits)

lemma setType_Inr:
  assumes "setType (qtype_node qd) q = Inr q2"
  shows "q2 = q\<lparr>mode := (case qtype_node qd of None \<Rightarrow> mode q
                  | Some ts \<Rightarrow> if type_name (hd ts) = js ''cat'' \<or> type_name (hd ts) = js ''bagcat''
                      then js ''delegate'' else type_name (hd ts)),
              points := (case lastParam (js ''cost'') (wagerParams qd) of None \<Rightarrow> points q
                  | Some p \<Rightarrow> parseInt (ToString (param_text p))),
              explanation := (case lastParam (js ''theme'') (wagerParams qd) of
                    None \<Rightarrow> explanation q
                  | Some p \<Rightarrow> param_text p)\<rparr>"
  using assms
  by (auto simp add: setType_def wagerParams_def forParams_fields Let_def
      split: option.splits list.splits if_splits)

lemma convertQuestion_fields:
  assumes "convertQuestion nz qd c = (Inr r, c')"
  shows "explanation r = explanationPrecedence qd"
    "points r = (case lastParam (js ''cost'') (wagerParams qd) of None \<Rightarrow> parseInt (price qd)
                  | Some p \<Rightarrow> parseInt (ToString (param_text p)))"
    "mode r = (case qtype_node qd of None \<Rightarrow> js ''default''
                  | Some ts \<Rightarrow> if type_name (hd ts) = js ''cat'' \<or> type_name (hd ts) = js ''bagcat''
                      then js ''delegate'' else type_name (hd ts))"
proof -
  from assms obtain q0 q1 q2 where
    s0: "newQuestion qd = Inr q0" and s1: "setInfo (info qd) q0 = Inr q1" and
    s2: "setType (qtype_node qd) q1 = Inr q2" and
    s3: "setScenario nz (scenario qd) q2 c = (Inr r, c')"
    by (rule convertQuestion_steps)
  note f0 = newQuestion_Inr [OF s0]
  note f1 = setInfo_Inr [OF s1]
  note f2 = setType_Inr [OF s2]
  from setScenario_frame [OF s3] obtain s ss where
    sc: "scenario qd = s # ss" and m: "mode r = mode q2" and p: "points r = points q2" and
    e: "explanation r = (case lastSay (atom s) of None \<Rightarrow> explanation q2 | Some x \<Rightarrow> x)"
    by blast
  have e1: "explanation q1 = infoComment qd"
    using f1 f0 by (simp add: infoComment_def split: option.splits)
  show "explanation r = explanationPrecedence qd"
    using e sc e1 by (subst (asm) f2) (simp add: explanationPrecedence_def scenarioEntries_def split: option.splits)
  show "points r = (case lastParam (js ''cost'') (wagerParams qd) of None \<Rightarrow> parseInt (price qd)
                  | Some p \<Rightarrow> parseInt (ToString (param_text p)))"
    using p f0 f1 by (subst (asm) f2) (simp split: option.splits)
  show "mode r = (case qtype_node qd of None \<Rightarrow> js ''default''
                  | Some ts \<Rightarrow> if type_name (hd ts) = js ''cat'' \<or> type_name (hd ts) = js ''bagcat''
                      then js ''delegate'' else type_name (hd ts))"
    using m f0 f1 by (subst (asm) f2) (simp split: option.splits)
qed

section \<open>The claims\<close>

text \<open>
  C2. The final explanation of a converted question follows last-write-wins in a fixed order:
  the first comment of the info block is written first, a \<^verbatim>\<open>theme\<close> parameter of a
  category wager overwrites it, and a \<^verbatim>\<open>say\<close> entry of the scenario overwrites both. With
  the comment "hint A", the theme parameter "hint B" and the say entry "hint C" the explanation
  is "hint C".
\<close>

theorem explanation_last_write_wins:
  assumes "convertQuestion path_normalize qd c = (Inr r, c')"
  shows "explanation r = explanationPrecedence qd"
  using assms by (rule convertQuestion_fields)

theorem explanation_last_write_wins_witness:
  "convertQuestion id
     \<lparr> price = js ''100'', right = [\<lparr> answer = [js ''yes''] \<rparr>],
       info = Some [\<lparr> comments = Some [js ''hint A''] \<rparr>],
       qtype_node = Some [\<lparr> type_name = js ''cat'',
         param = Some [\<lparr> param_name = js ''theme'', param_text = Some (js ''hint B'') \<rparr>] \<rparr>],
       scenario = [\<lparr> atom = [Media \<lparr> ms_type = js ''say'', ms_text = Some (js ''hint C'') \<rparr>,
                              Literal (js ''What?'')] \<rparr>] \<rparr> []
   = (Inr \<lparr> points = Num 100, mode = js ''delegate'', qtype = js ''media'',
            answers = [js ''yes''],
            task = \<lparr> task_text = js ''What?'', images = [], sounds = [], video = [] \<rparr>,
            explanation = Some (js ''hint C'') \<rparr>, [])
   \<and> explanationPrecedence
     \<lparr> price = js ''100'', right = [\<lparr> answer = [js ''yes''] \<rparr>],
       info = Some [\<lparr> comments = Some [js ''hint A''] \<rparr>],
       qtype_node = Some [\<lparr> type_name = js ''cat'',
         param = Some [\<lparr> param_name = js ''theme'', param_text = Some (js ''hint B'') \<rparr>] \<rparr>],
       scenario = [\<lparr> atom = [Media \<lparr> ms_type = js ''say'', ms_text = Some (js ''hint C'') \<rparr>,
                              Literal (js ''What?'')] \<rparr>] \<rparr>
   = Some (js ''hint C'')"
proof -
  let ?qd = "\<lparr> price = js ''100'', right = [\<lparr> answer = [js ''yes''] \<rparr>],
       info = Some [\<lparr> comments = Some [js ''hint A''] \<rparr>],
       qtype_node = Some [\<lparr> type_name = js ''cat'',
         param = Some [\<lparr> param_name = js ''theme'', param_text = Some (js ''hint B'') \<rparr>] \<rparr>],
       scenario = [\<lparr> atom = [Media \<lparr> ms_type = js ''say'', ms_text = Some (js ''hint C'') \<rparr>,
                              Literal (js ''What?'')] \<rparr>] \<rparr>"
  let ?r = "\<lparr> points = Num 100, mode = js ''delegate'', qtype = js ''media'',
            answers = [js ''yes''],
            task = \<lparr> task_text = js ''What?'', images = [], sounds = [], video = [] \<rparr>,
            explanation = Some (js ''hint C'') \<rparr>"
  have run: "convertQuestion id ?qd [] = (Inr ?r, [])"
    by (simp add: convertQuestion_def newQuestion_def setInfo_def setType_def setScenario_def
        setQuestionMediaTask_def parseInt_def isWhiteSpace_def isDigit_def js_def)
  from explanation_last_write_wins [OF run] have "explanationPrecedence ?qd = Some (js ''hint C'')"
    by simp
  with run show ?thesis by simp
qed

lemma lastParam_filter:
  "n = js ''cost'' \<or> n = js ''theme'' \<Longrightarrow>
   lastParam n (filter (\<lambda>p. param_name p = js ''cost'' \<or> param_name p = js ''theme'') ps)
     = lastParam n ps"
  by (induction ps) (auto simp add: lastParam_Cons split: option.splits)

lemma forParams_known:
  "forParams (filter (\<lambda>p. param_name p = js ''cost'' \<or> param_name p = js ''theme'') ps) q
     = forParams ps q"
  by (simp add: forParams_fields lastParam_filter)

text \<open>
  C3. When the declared type name of a question is \<^verbatim>\<open>cat\<close> or \<^verbatim>\<open>bagcat\<close>, the mode is
  \<^verbatim>\<open>delegate\<close>, a parameter named \<^verbatim>\<open>cost\<close> overrides the points with its value parsed as
  an integer (whatever the price attribute was), a parameter named \<^verbatim>\<open>theme\<close> overrides the
  explanation, and parameters of any other name are ignored. For every other declared type name
  the mode is that name, verbatim.
\<close>

theorem category_wager_type:
  assumes "qtype_node qd = Some (t # ts)"
  shows
    "(type_name t = js ''cat'' \<or> type_name t = js ''bagcat'' \<longrightarrow>
        setType (qtype_node qd) q =
          Inr (q\<lparr>mode := js ''delegate'',
                points := (case lastParam (js ''cost'') (wagerParams qd) of
                             None \<Rightarrow> points q
                           | Some p \<Rightarrow> parseInt (ToString (param_text p))),
                explanation := (case lastParam (js ''theme'') (wagerParams qd) of
                             None \<Rightarrow> explanation q
                           | Some p \<Rightarrow> param_text p)\<rparr>)
        \<and> (\<forall>ps. param t = Some ps \<longrightarrow>
              setType (Some (t\<lparr>param := Some (filter (\<lambda>p. param_name p = js ''cost''
                                  \<or> param_name p = js ''theme'') ps)\<rparr> # ts)) q
                = setType (qtype_node qd) q)
        \<and> (\<forall>path_normalize c r c'. convertQuestion path_normalize qd c = (Inr r, c') \<longrightarrow>
              mode r = js ''delegate''
              \<and> points r = (case lastParam (js ''cost'') (wagerParams qd) of
                             None \<Rightarrow> parseInt (price qd)
                           | Some p \<Rightarrow> parseInt (ToString (param_text p)))))
     \<and> (type_name t \<noteq> js ''cat'' \<and> type_name t \<noteq> js ''bagcat'' \<longrightarrow>
        setType (qtype_node qd) q = Inr (q\<lparr>mode := type_name t\<rparr>)
        \<and> (\<forall>path_normalize c r c'. convertQuestion path_normalize qd c = (Inr r, c') \<longrightarrow>
              mode r = type_name t))"
proof (intro conjI impI allI)
  assume w: "type_name t = js ''cat'' \<or> type_name t = js ''bagcat''"
  show "setType (qtype_node qd) q =
          Inr (q\<lparr>mode := js ''delegate'',
                points := (case lastParam (js ''cost'') (wagerParams qd) of
                             None \<Rightarrow> points q
                           | Some p \<Rightarrow> parseInt (ToString (param_text p))),
                explanation := (case lastParam (js ''theme'') (wagerParams qd) of
                             None \<Rightarrow> explanation q
                           | Some p \<Rightarrow> param_text p)\<rparr>)"
    using assms w
    by (auto simp add: setType_def wagerParams_def forParams_fields split: option.splits)
next
  fix ps
  assume w: "type_name t = js ''cat'' \<or> type_name t = js ''bagcat''" and ps: "param t = Some ps"
  show "setType (Some (t\<lparr>param := Some (filter (\<lambda>p. param_name p = js ''cost''
                                  \<or> param_name p = js ''theme'') ps)\<rparr> # ts)) q
                = setType (qtype_node qd) q"
    using assms w ps by (auto simp add: setType_def forParams_known)
next
  fix path_normalize c r c'
  assume w: "type_name t = js ''cat'' \<or> type_name t = js ''bagcat''"
    and run: "convertQuestion path_normalize qd c = (Inr r, c')"
  from convertQuestion_fields(3) [OF run] show "mode r = js ''delegate''"
    using assms w by auto
  from convertQuestion_fields(2) [OF run]
  show "points r = (case lastParam (js ''cost'') (wagerParams qd) of
                             None \<Rightarrow> parseInt (price qd)
                           | Some p \<Rightarrow> parseInt (ToString (param_text p)))" .
next
  assume o: "type_name t \<noteq> js ''cat'' \<and> type_name t \<noteq> js ''bagcat''"
  show "setType (qtype_node qd) q = Inr (q\<lparr>mode := type_name t\<rparr>)"
    using assms o by (simp add: setType_def)
next
  fix path_normalize c r c'
  assume o: "type_name t \<noteq> js ''cat'' \<and> type_name t \<noteq> js ''bagcat''"
    and run: "convertQuestion path_normalize qd c = (Inr r, c')"
  from convertQuestion_fields(3) [OF run] show "mode r = type_name t"
    using assms o by simp
qed

theorem category_wager_type_witness:
  "convertQuestion id
     \<lparr> price = js ''100'', right = [\<lparr> answer = [js ''yes''] \<rparr>], info = None,
       qtype_node = Some [\<lparr> type_name = js ''bagcat'',
         param = Some [\<lparr> param_name = js ''cost'', param_text = Some (js ''500'') \<rparr>,
                       \<lparr> param_name = js ''theme'', param_text = Some (js ''Rivers'') \<rparr>,
                       \<lparr> param_name = js ''self'', param_text = Some (js ''true'') \<rparr>] \<rparr>],
       scenario = [\<lparr> atom = [Literal (js ''What?'')] \<rparr>] \<rparr> []
   = (Inr \<lparr> points = Num 500, mode = js ''delegate'', qtype = js ''plain'',
            answers = [js ''yes''],
            task = \<lparr> task_text = js ''What?'', images = [], sounds = [], video = [] \<rparr>,
            explanation = Some (js ''Rivers'') \<rparr>, [])
   \<and> parseInt (js ''100'') = Num 100 \<and> parseInt (js ''500'') = Num 500"
proof -
  let ?ps = "[\<lparr> param_name = js ''cost'', param_text = Some (js ''500'') \<rparr>,
              \<lparr> param_name = js ''theme'', param_text = Some (js ''Rivers'') \<rparr>,
              \<lparr> param_name = js ''self'', param_text = Some (js ''true'') \<rparr>]"
  let ?t = "\<lparr> type_name = js ''bagcat'', param = Some ?ps \<rparr>"
  let ?qd = "\<lparr> price = js ''100'', right = [\<lparr> answer = [js ''yes''] \<rparr>], info = None,
       qtype_node = Some [?t], scenario = [\<lparr> atom = [Literal (js ''What?'')] \<rparr>] \<rparr>"
  let ?r = "\<lparr> points = Num 500, mode = js ''delegate'', qtype = js ''plain'',
            answers = [js ''yes''],
            task = \<lparr> task_text = js ''What?'', images = [], sounds = [], video = [] \<rparr>,
            explanation = Some (js ''Rivers'') \<rparr>"
  have h: "qtype_node ?qd = Some [?t]" by simp
  have w: "type_name ?t = js ''cat'' \<or> type_name ?t = js ''bagcat''" by simp
  have run: "convertQuestion id ?qd [] = (Inr ?r, [])"
    by (simp add: convertQuestion_def newQuestion_def setInfo_def setType_def setScenario_def
        parseInt_def ToString_def isWhiteSpace_def isDigit_def js_def)
  have pr: "parseInt (js ''100'') = Num 100"
    by (simp add: parseInt_def isWhiteSpace_def isDigit_def js_def)
  have pc: "parseInt (js ''500'') = Num 500"
    by (simp add: parseInt_def isWhiteSpace_def isDigit_def js_def)
  from category_wager_type [OF h] w run
  have "mode ?r = js ''delegate''
    \<and> points ?r = (case lastParam (js ''cost'') (wagerParams ?qd) of
                       None \<Rightarrow> parseInt (price ?qd)
                     | Some p \<Rightarrow> parseInt (ToString (param_text p)))"
    by blast
  with run pr pc show ?thesis by simp
qed

text \<open>
  C9. A question whose declared type name is \<^verbatim>\<open>cat\<close> or \<^verbatim>\<open>bagcat\<close> and whose type node
  has no parameter array does not fail on that account: the type step returns, the mode is
  \<^verbatim>\<open>delegate\<close>, and the points and the explanation keep the values of the earlier steps (the
  price attribute and the info comment).
\<close>

theorem wager_without_params:
  assumes "qtype_node qd = Some (t # ts)"
    and "type_name t = js ''cat'' \<or> type_name t = js ''bagcat''"
    and "param t = None"
  shows "setType (qtype_node qd) q = Inr (q\<lparr>mode := js ''delegate''\<rparr>)
     \<and> (\<forall>q0 q1 path_normalize c.
           newQuestion qd = Inr q0 \<longrightarrow> setInfo (info qd) q0 = Inr q1 \<longrightarrow>
           convertQuestion path_normalize qd c
             = setScenario path_normalize (scenario qd) (q1\<lparr>mode := js ''delegate''\<rparr>) c)
     \<and> (\<forall>path_normalize c r c'. convertQuestion path_normalize qd c = (Inr r, c') \<longrightarrow>
           mode r = js ''delegate'' \<and> points r = parseInt (price qd)
           \<and> (lastSay (scenarioEntries qd) = None \<longrightarrow> explanation r = infoComment qd))"
proof (intro conjI impI allI)
  show st: "setType (qtype_node qd) q = Inr (q\<lparr>mode := js ''delegate''\<rparr>)" for q
    using assms by (auto simp add: setType_def)
  fix q0 q1 path_normalize c
  assume "newQuestion qd = Inr q0" "setInfo (info qd) q0 = Inr q1"
  then show "convertQuestion path_normalize qd c
             = setScenario path_normalize (scenario qd) (q1\<lparr>mode := js ''delegate''\<rparr>) c"
    by (simp add: convertQuestion_def st)
next
  fix path_normalize c r c'
  assume run: "convertQuestion path_normalize qd c = (Inr r, c')"
  have wp: "wagerParams qd = []"
    using assms by (auto simp add: wagerParams_def)
  from convertQuestion_fields(3) [OF run] show "mode r = js ''delegate''"
    using assms by auto
  from convertQuestion_fields(2) [OF run] show "points r = parseInt (price qd)"
    by (simp add: wp)
  assume "lastSay (scenarioEntries qd) = None"
  with convertQuestion_fields(1) [OF run] show "explanation r = infoComment qd"
    by (simp add: explanationPrecedence_def wp)
qed


theorem wager_without_params_witness:
  "convertQuestion id
     \<lparr> price = js ''300'', right = [\<lparr> answer = [js ''yes''] \<rparr>],
       info = Some [\<lparr> comments = Some [js ''host note''] \<rparr>],
       qtype_node = Some [\<lparr> type_name = js ''cat'', param = None \<rparr>],
       scenario = [\<lparr> atom = [Literal (js ''What?'')] \<rparr>] \<rparr> []
   = (Inr \<lparr> points = Num 300, mode = js ''delegate'', qtype = js ''plain'',
            answers = [js ''yes''],
            task = \<lparr> task_text = js ''What?'', images = [], sounds = [], video = [] \<rparr>,
            explanation = Some (js ''host note'') \<rparr>, [])
   \<and> parseInt (js ''300'') = Num 300"
proof -
  let ?t = "\<lparr> type_name = js ''cat'', param = None \<rparr>"
  let ?qd = "\<lparr> price = js ''300'', right = [\<lparr> answer = [js ''yes''] \<rparr>],
       info = Some [\<lparr> comments = Some [js ''host note''] \<rparr>],
       qtype_node = Some [?t], scenario = [\<lparr> atom = [Literal (js ''What?'')] \<rparr>] \<rparr>"
  let ?r = "\<lparr> points = Num 300, mode = js ''delegate'', qtype = js ''plain'',
            answers = [js ''yes''],
            task = \<lparr> task_text = js ''What?'', images = [], sounds = [], video = [] \<rparr>,
            explanation = Some (js ''host note'') \<rparr>"
  have h: "qtype_node ?qd = Some [?t]" by simp
  have w: "type_name ?t = js ''cat'' \<or> type_name ?t = js ''bagcat''" by simp
  have p: "param ?t = None" by simp
  have run: "convertQuestion id ?qd [] = (Inr ?r, [])"
    by (simp add: convertQuestion_def newQuestion_def setInfo_def setType_def setScenario_def
        parseInt_def ToString_def isWhiteSpace_def isDigit_def js_def)
  from wager_without_params [OF h w p, of undefined] run
  have "points ?r = parseInt (price ?qd)" by blast
  then have "parseInt (js ''300'') = Num 300" by simp
  with run show ?thesis by simp
qed

lemma convertQuestion_before_scenario:
  assumes "newQuestion qd = Inr q0" "setInfo (info qd) q0 = Inr q1"
    "setType (qtype_node qd) q1 = Inr q2"
  shows "qtype q2 = js ''plain''"
    "task q2 = \<lparr> task_text = [], images = [], sounds = [], video = [] \<rparr>"
  using newQuestion_Inr [OF assms(1)]
    arg_cong [OF setType_Inr [OF assms(3)], of qtype] arg_cong [OF setType_Inr [OF assms(3)], of task]
    arg_cong [OF setInfo_Inr [OF assms(2)], of qtype] arg_cong [OF setInfo_Inr [OF assms(2)], of task]
  by simp_all

text \<open>
  C1, as the code has it. The type of a converted question is decided by the shape of its
  scenario entry list alone: with exactly one entry that is a literal string the type is
  \<^verbatim>\<open>plain\<close>, the task text is that string (the empty string when the entry is empty), and
  images, sounds and video are empty; in every other case the type is \<^verbatim>\<open>media\<close>.
\<close>

theorem question_type_by_scenario_shape:
  assumes "convertQuestion path_normalize qd c = (Inr r, c')"
  shows "(\<forall>t. scenarioEntries qd = [Literal t] \<longrightarrow>
            qtype r = js ''plain'' \<and> task_text (task r) = t
            \<and> images (task r) = [] \<and> sounds (task r) = [] \<and> video (task r) = [])
       \<and> ((\<forall>t. scenarioEntries qd \<noteq> [Literal t]) \<longrightarrow> qtype r = js ''media'')"
proof -
  from assms obtain q0 q1 q2 where
    s0: "newQuestion qd = Inr q0" and s1: "setInfo (info qd) q0 = Inr q1" and
    s2: "setType (qtype_node qd) q1 = Inr q2" and
    s3: "setScenario path_normalize (scenario qd) q2 c = (Inr r, c')"
    by (rule convertQuestion_steps)
  note before = convertQuestion_before_scenario [OF s0 s1 s2]
  from setScenario_frame [OF s3] obtain s ss where
    sc: "scenario qd = s # ss" and
    lit: "\<forall>t. atom s = [Literal t] \<longrightarrow> r = q2\<lparr>task := (task q2)\<lparr>task_text := t\<rparr>\<rparr> \<and> c' = c" and
    med: "(\<forall>t. atom s \<noteq> [Literal t]) \<longrightarrow> qtype r = js ''media''"
    by blast
  have entries: "scenarioEntries qd = atom s"
    using sc by (simp add: scenarioEntries_def)
  show ?thesis
  proof (intro conjI allI impI)
    fix t
    assume "scenarioEntries qd = [Literal t]"
    with entries lit have r: "r = q2\<lparr>task := (task q2)\<lparr>task_text := t\<rparr>\<rparr>" by simp
    show "qtype r = js ''plain''" "task_text (task r) = t" "images (task r) = []"
      "sounds (task r) = []" "video (task r) = []"
      using before by (simp_all add: r)
  next
    assume "\<forall>t. scenarioEntries qd \<noteq> [Literal t]"
    with entries med show "qtype r = js ''media''" by simp
  qed
qed

theorem question_type_by_scenario_shape_witness:
  "convertQuestion id
     \<lparr> price = js ''100'', right = [\<lparr> answer = [js ''yes''] \<rparr>], info = None,
       qtype_node = None,
       scenario = [\<lparr> atom = [Media \<lparr> ms_type = js ''image'', ms_text = Some (js ''@cat.png'') \<rparr>] \<rparr>] \<rparr> []
   = (Inr \<lparr> points = Num 100, mode = js ''default'', qtype = js ''media'',
            answers = [js ''yes''],
            task = \<lparr> task_text = [], images = [js ''cat.png''], sounds = [], video = [] \<rparr>,
            explanation = Some [] \<rparr>, [])
   \<and> convertQuestion id
     \<lparr> price = js ''100'', right = [\<lparr> answer = [js ''yes''] \<rparr>], info = None,
       qtype_node = None, scenario = [\<lparr> atom = [Literal (js ''What?'')] \<rparr>] \<rparr> []
   = (Inr \<lparr> points = Num 100, mode = js ''default'', qtype = js ''plain'',
            answers = [js ''yes''],
            task = \<lparr> task_text = js ''What?'', images = [], sounds = [], video = [] \<rparr>,
            explanation = Some [] \<rparr>, [])"
proof -
  let ?m = "\<lparr> price = js ''100'', right = [\<lparr> answer = [js ''yes''] \<rparr>], info = None,
       qtype_node = None,
       scenario = [\<lparr> atom = [Media \<lparr> ms_type = js ''image'', ms_text = Some (js ''@cat.png'') \<rparr>] \<rparr>] \<rparr>"
  let ?p = "\<lparr> price = js ''100'', right = [\<lparr> answer = [js ''yes''] \<rparr>], info = None,
       qtype_node = None, scenario = [\<lparr> atom = [Literal (js ''What?'')] \<rparr>] \<rparr>"
  let ?rm = "\<lparr> points = Num 100, mode = js ''default'', qtype = js ''media'',
            answers = [js ''yes''],
            task = \<lparr> task_text = [], images = [js ''cat.png''], sounds = [], video = [] \<rparr>,
            explanation = Some [] \<rparr>"
  let ?rp = "\<lparr> points = Num 100, mode = js ''default'', qtype = js ''plain'',
            answers = [js ''yes''],
            task = \<lparr> task_text = js ''What?'', images = [], sounds = [], video = [] \<rparr>,
            explanation = Some [] \<rparr>"
  have runm: "convertQuestion id ?m [] = (Inr ?rm, [])"
    by (simp add: convertQuestion_def newQuestion_def setInfo_def setType_def setScenario_def
        setQuestionMediaTask_def mediaPath_def parseInt_def isWhiteSpace_def isDigit_def js_def)
  have runp: "convertQuestion id ?p [] = (Inr ?rp, [])"
    by (simp add: convertQuestion_def newQuestion_def setInfo_def setType_def setScenario_def
        parseInt_def isWhiteSpace_def isDigit_def js_def)
  have "scenarioEntries ?p = [Literal (js ''What?'')]"
    by (simp add: scenarioEntries_def)
  with question_type_by_scenario_shape [OF runp]
  have "qtype ?rp = js ''plain'' \<and> task_text (task ?rp) = js ''What?''" by blast
  moreover have "\<forall>t. scenarioEntries ?m \<noteq> [Literal t]"
    by (simp add: scenarioEntries_def)
  with question_type_by_scenario_shape [OF runm]
  have "qtype ?rm = js ''media''" by blast
  ultimately show ?thesis using runm runp by simp
qed

text \<open>
  The claim C1 also promises a non-empty task text. A question whose single scenario entry is
  the empty string (an empty \<^verbatim>\<open>atom\<close> element) is converted to a plain question with the
  empty task text.
\<close>

theorem plain_text_nonempty_counterexample:
  "convertQuestion id
     \<lparr> price = js ''100'', right = [\<lparr> answer = [js ''yes''] \<rparr>], info = None,
       qtype_node = None, scenario = [\<lparr> atom = [Literal []] \<rparr>] \<rparr> []
   = (Inr \<lparr> points = Num 100, mode = js ''default'', qtype = js ''plain'',
            answers = [js ''yes''],
            task = \<lparr> task_text = [], images = [], sounds = [], video = [] \<rparr>,
            explanation = Some [] \<rparr>, [])"
  by (simp add: convertQuestion_def newQuestion_def setInfo_def setType_def setScenario_def
      parseInt_def isWhiteSpace_def isDigit_def js_def)

text \<open>
  C10. A question with an info block that holds no comments is to keep the empty string as its
  explanation. The code tests only that the info block is there (line 104) and reads the first
  comment all the same (line 105): for a block without a \<^verbatim>\<open>comments\<close> key the read throws
  a \<^verbatim>\<open>TypeError\<close> and no question is produced.
\<close>

theorem info_without_comments_throws:
  "convertQuestion path_normalize
     \<lparr> price = js ''100'', right = [\<lparr> answer = [js ''yes''] \<rparr>],
       info = Some [\<lparr> comments = None \<rparr>], qtype_node = None,
       scenario = [\<lparr> atom = [Literal (js ''What?'')] \<rparr>] \<rparr> []
   = (Inl (TypeError (js ''0'')), [])"
  by (simp add: convertQuestion_def newQuestion_def setInfo_def)

lemma setQuestionMediaTask_unknown:
  assumes "ms_type m \<notin> {js ''image'', js ''voice'', js ''video'', js ''say'', js ''marker''}"
  shows "setQuestionMediaTask nz m q c = (Inr q, c @ [warning (ms_type m)])"
  using assms by (simp add: setQuestionMediaTask_def)

lemma setQuestionMediaTask_console:
  "setQuestionMediaTask nz m q (c0 @ c) =
     (fst (setQuestionMediaTask nz m q c), c0 @ snd (setQuestionMediaTask nz m q c))"
  by (simp add: setQuestionMediaTask_def split: sum.splits)

lemma forScenario_console:
  "forScenario nz entries q (c0 @ c) =
     (fst (forScenario nz entries q c), c0 @ snd (forScenario nz entries q c))"
proof (induction entries arbitrary: q c)
  case Nil
  show ?case by simp
next
  case (Cons a entries)
  show ?case
  proof (cases a)
    case (Literal s)
    show ?thesis
      unfolding Literal forScenario.simps by (rule Cons.IH)
  next
    case (Media m)
    obtain x w where one: "setQuestionMediaTask nz m q c = (x, w)"
      by (cases "setQuestionMediaTask nz m q c")
    then have two: "setQuestionMediaTask nz m q (c0 @ c) = (x, c0 @ w)"
      by (simp only: setQuestionMediaTask_console fst_conv snd_conv)
    show ?thesis
    proof (cases x)
      case (Inl e)
      show ?thesis
        unfolding Media forScenario.simps one two Inl by simp
    next
      case (Inr q1)
      show ?thesis
        unfolding Media forScenario.simps one two Inr using Cons.IH [of q1 w] by simp
    qed
  qed
qed

lemma forScenario_fst_console:
  "fst (forScenario nz entries q c) = fst (forScenario nz entries q [])"
  using forScenario_console [of nz entries q c "[]"] by simp

lemma forScenario_append:
  "forScenario nz (before @ rest) q c =
     (case forScenario nz before q c of
        (Inl e, c1) \<Rightarrow> (Inl e, c1)
      | (Inr q1, c1) \<Rightarrow> forScenario nz rest q1 c1)"
proof (induction before arbitrary: q c)
  case Nil
  show ?case by simp
next
  case (Cons a before)
  show ?case
  proof (cases a)
    case (Literal s)
    then show ?thesis using Cons.IH by simp
  next
    case (Media m)
    then show ?thesis using Cons.IH by (simp split: prod.splits sum.splits)
  qed
qed

text \<open>
  C8. A scenario entry of the media branch whose kind is none of \<^verbatim>\<open>image\<close>, \<^verbatim>\<open>voice\<close>,
  \<^verbatim>\<open>video\<close>, \<^verbatim>\<open>say\<close> and \<^verbatim>\<open>marker\<close> is skipped with a warning and without an error:
  the question is unchanged, the loop goes on with the remaining entries, and the question it
  produces is the one it produces without that entry.
\<close>

theorem unknown_scenario_kind_skipped:
  assumes "ms_type m \<notin> {js ''image'', js ''voice'', js ''video'', js ''say'', js ''marker''}"
  shows "setQuestionMediaTask path_normalize m q c = (Inr q, c @ [warning (ms_type m)])
     \<and> forScenario path_normalize (before @ Media m # rest) q c =
         (case forScenario path_normalize before q c of
            (Inl e, c1) \<Rightarrow> (Inl e, c1)
          | (Inr q1, c1) \<Rightarrow> forScenario path_normalize rest q1 (c1 @ [warning (ms_type m)]))
     \<and> fst (forScenario path_normalize (before @ Media m # rest) q c)
         = fst (forScenario path_normalize (before @ rest) q c)
     \<and> (\<forall>s ss. atom s = [Media m] \<longrightarrow>
           setScenario path_normalize (s # ss) q c
             = (Inr (q\<lparr>qtype := js ''media''\<rparr>), c @ [warning (ms_type m)]))"
proof (intro conjI allI impI)
  note skip = setQuestionMediaTask_unknown [OF assms]
  show "setQuestionMediaTask path_normalize m q c = (Inr q, c @ [warning (ms_type m)])"
    by (rule skip)
  show loop: "forScenario path_normalize (before @ Media m # rest) q c =
         (case forScenario path_normalize before q c of
            (Inl e, c1) \<Rightarrow> (Inl e, c1)
          | (Inr q1, c1) \<Rightarrow> forScenario path_normalize rest q1 (c1 @ [warning (ms_type m)]))"
    by (simp add: forScenario_append [of _ before] skip split: prod.splits sum.splits)
  show "fst (forScenario path_normalize (before @ Media m # rest) q c)
         = fst (forScenario path_normalize (before @ rest) q c)"
  proof (cases "forScenario path_normalize before q c")
    case (Pair x c1)
    show ?thesis
    proof (cases x)
      case (Inl e)
      with Pair show ?thesis by (simp add: loop forScenario_append [of _ before rest])
    next
      case (Inr q1)
      with Pair show ?thesis
        using forScenario_fst_console [of path_normalize rest q1 "c1 @ [warning (ms_type m)]"]
          forScenario_fst_console [of path_normalize rest q1 c1]
        by (simp add: loop forScenario_append [of _ before rest])
    qed
  qed
  fix s :: scenario_data and ss
  assume "atom s = [Media m]"
  then show "setScenario path_normalize (s # ss) q c
             = (Inr (q\<lparr>qtype := js ''media''\<rparr>), c @ [warning (ms_type m)])"
    by (simp add: setScenario_media skip)
qed

theorem unknown_scenario_kind_skipped_witness:
  "convertQuestion id
     \<lparr> price = js ''100'', right = [\<lparr> answer = [js ''yes''] \<rparr>], info = None,
       qtype_node = None,
       scenario = [\<lparr> atom = [Media \<lparr> ms_type = js ''hologram'', ms_text = Some (js ''@h.bin'') \<rparr>,
                              Media \<lparr> ms_type = js ''voice'', ms_text = Some (js ''@a.mp3'') \<rparr>] \<rparr>] \<rparr> []
   = (Inr \<lparr> points = Num 100, mode = js ''default'', qtype = js ''media'',
            answers = [js ''yes''],
            task = \<lparr> task_text = [], images = [], sounds = [js ''a.mp3''], video = [] \<rparr>,
            explanation = Some [] \<rparr>,
      [js ''Detected unhandled scenario type \"hologram. Please open a ticket to support it''])"
proof -
  let ?m = "\<lparr> ms_type = js ''hologram'', ms_text = Some (js ''@h.bin'') \<rparr>"
  let ?qd = "\<lparr> price = js ''100'', right = [\<lparr> answer = [js ''yes''] \<rparr>], info = None,
       qtype_node = None,
       scenario = [\<lparr> atom = [Media ?m,
                              Media \<lparr> ms_type = js ''voice'', ms_text = Some (js ''@a.mp3'') \<rparr>] \<rparr>] \<rparr>"
  let ?r = "\<lparr> points = Num 100, mode = js ''default'', qtype = js ''media'',
            answers = [js ''yes''],
            task = \<lparr> task_text = [], images = [], sounds = [js ''a.mp3''], video = [] \<rparr>,
            explanation = Some [] \<rparr>"
  have h: "ms_type ?m \<notin> {js ''image'', js ''voice'', js ''video'', js ''say'', js ''marker''}"
    by (simp add: js_def)
  have run: "convertQuestion id ?qd [] = (Inr ?r,
      [js ''Detected unhandled scenario type \"hologram. Please open a ticket to support it''])"
    by (simp add: convertQuestion_def newQuestion_def setInfo_def setType_def setScenario_def
        setQuestionMediaTask_def mediaPath_def warning_def parseInt_def isWhiteSpace_def
        isDigit_def js_def)
  from unknown_scenario_kind_skipped [OF h, of id ?r "[]" "[]" "[]"]
  have "setQuestionMediaTask id ?m ?r [] = (Inr ?r, [warning (ms_type ?m)])"
    by simp
  with run show ?thesis by simp
qed

lemma setQuestionMediaTask_isl:
  "isl (fst (setQuestionMediaTask nz m q c)) =
     ((ms_type m = js ''image'' \<or> ms_type m = js ''voice'' \<or> ms_type m = js ''video'')
      \<and> ms_text m = None)"
  by (auto simp add: setQuestionMediaTask_def mediaPath_def split: option.splits)

lemma forScenario_isl:
  "isl (fst (forScenario nz entries q c)) = isl (fst (forScenario nz entries q' c'))"
proof (induction entries arbitrary: q c q' c')
  case Nil
  show ?case by simp
next
  case (Cons a entries)
  show ?case
  proof (cases a)
    case (Literal s)
    show ?thesis unfolding Literal forScenario.simps by (rule Cons.IH)
  next
    case (Media m)
    obtain x w where one: "setQuestionMediaTask nz m q c = (x, w)"
      by (cases "setQuestionMediaTask nz m q c")
    obtain x' w' where two: "setQuestionMediaTask nz m q' c' = (x', w')"
      by (cases "setQuestionMediaTask nz m q' c'")
    have same: "isl x = isl x'"
      using setQuestionMediaTask_isl [of nz m q c] setQuestionMediaTask_isl [of nz m q' c']
      by (simp add: one two)
    show ?thesis
    proof (cases x)
      case (Inl e)
      with same obtain e' where "x' = Inl e'" by (cases x') simp_all
      with Inl show ?thesis by (simp add: Media one two)
    next
      case (Inr q1)
      with same obtain q1' where "x' = Inr q1'" by (cases x') simp_all
      with Inr show ?thesis using Cons.IH [of q1 w q1' w'] by (simp add: Media one two)
    qed
  qed
qed

lemma setScenario_isl:
  "isl (fst (setScenario nz sc q c)) = isl (fst (setScenario nz sc q' c'))"
proof (cases sc)
  case Nil
  then show ?thesis by (simp add: setScenario_Nil)
next
  case (Cons s ss)
  show ?thesis
  proof (cases "atom s" rule: atoms_shape)
    case empty
    then show ?thesis by (simp add: Cons setScenario_empty)
  next
    case (literal t)
    then show ?thesis by (simp add: Cons setScenario_literal)
  next
    case (media m)
    then show ?thesis by (simp add: Cons setScenario_media setQuestionMediaTask_isl)
  next
    case (many a b rest)
    then show ?thesis
      using forScenario_isl [of nz "a # b # rest"] by (simp only: Cons setScenario_many)
  qed
qed

lemma convertQuestion_isl:
  "isl (fst (convertQuestion nz qd c)) =
     (right qd = []
      \<or> (case info qd of None \<Rightarrow> False | Some [] \<Rightarrow> True
         | Some (i # _) \<Rightarrow> comments i = None)
      \<or> qtype_node qd = Some []
      \<or> isl (fst (setScenario nz (scenario qd) q c)))"
proof -
  have n: "isl (newQuestion qd) = (right qd = [])"
    by (simp add: newQuestion_def split: list.splits)
  have i: "isl (setInfo (info qd) q0) =
      (case info qd of None \<Rightarrow> False | Some [] \<Rightarrow> True
         | Some (i # _) \<Rightarrow> comments i = None)" for q0
    by (simp add: setInfo_def split: option.splits list.splits)
  have t: "isl (setType (qtype_node qd) q1) = (qtype_node qd = Some [])" for q1
    by (simp add: setType_def Let_def split: option.splits list.splits)
  show ?thesis
  proof (cases "newQuestion qd")
    case (Inl e)
    with n show ?thesis by (simp add: convertQuestion_def)
  next
    case q0: (Inr q0)
    with n have r: "right qd \<noteq> []" by auto
    show ?thesis
    proof (cases "setInfo (info qd) q0")
      case (Inl e)
      with i [of q0] q0 show ?thesis by (simp add: convertQuestion_def)
    next
      case q1: (Inr q1)
      with i [of q0] have ni: "\<not> (case info qd of None \<Rightarrow> False | Some [] \<Rightarrow> True
         | Some (i # _) \<Rightarrow> comments i = None)"
        by auto
      show ?thesis
      proof (cases "setType (qtype_node qd) q1")
        case (Inl e)
        with t [of q1] q0 q1 show ?thesis by (simp add: convertQuestion_def)
      next
        case q2: (Inr q2)
        with t [of q1] have nt: "qtype_node qd \<noteq> Some []" by auto
        show ?thesis
          using setScenario_isl [of nz "scenario qd" q2 c q c]
          by (simp add: convertQuestion_def q0 q1 q2 r ni nt)
      qed
    qed
  qed
qed

text \<open>
  C4, as the code has it. A price attribute or a \<^verbatim>\<open>cost\<close> parameter that is no well-formed
  integer raises no error: whether the conversion of a question fails depends neither on the
  price nor on the parameters of the type node, the points of the converted question are what
  \<^verbatim>\<open>parseInt\<close> returns for the price or for the last \<^verbatim>\<open>cost\<close> parameter, and that is
  \<^verbatim>\<open>NaN\<close> exactly when no decimal digit follows the leading white space and the optional
  sign.
\<close>

theorem malformed_integer_not_raised:
  "isl (fst (convertQuestion path_normalize (qd\<lparr>price := s\<rparr>) c))
     = isl (fst (convertQuestion path_normalize qd c))
   \<and> (\<forall>t ts ps. qtype_node qd = Some (t # ts) \<longrightarrow>
         isl (fst (convertQuestion path_normalize
                     (qd\<lparr>qtype_node := Some (t\<lparr>param := ps\<rparr> # ts)\<rparr>) c))
           = isl (fst (convertQuestion path_normalize qd c)))
   \<and> (\<forall>r c'. convertQuestion path_normalize qd c = (Inr r, c') \<longrightarrow>
         points r = (case lastParam (js ''cost'') (wagerParams qd) of
                       None \<Rightarrow> parseInt (price qd)
                     | Some p \<Rightarrow> parseInt (ToString (param_text p))))
   \<and> (\<forall>str. (parseInt str = NaN) =
         (let S = dropWhile isWhiteSpace str
          in takeWhile isDigit (if S \<noteq> [] \<and> (hd S = 43 \<or> hd S = 45) then tl S else S) = []))"
proof (intro conjI allI impI)
  show "isl (fst (convertQuestion path_normalize (qd\<lparr>price := s\<rparr>) c))
     = isl (fst (convertQuestion path_normalize qd c))"
    using convertQuestion_isl [of path_normalize "qd\<lparr>price := s\<rparr>" c undefined]
      convertQuestion_isl [of path_normalize qd c undefined]
    by simp
next
  fix t ts ps
  assume "qtype_node qd = Some (t # ts)"
  then show "isl (fst (convertQuestion path_normalize
                     (qd\<lparr>qtype_node := Some (t\<lparr>param := ps\<rparr> # ts)\<rparr>) c))
           = isl (fst (convertQuestion path_normalize qd c))"
    using convertQuestion_isl
        [of path_normalize "qd\<lparr>qtype_node := Some (t\<lparr>param := ps\<rparr> # ts)\<rparr>" c undefined]
      convertQuestion_isl [of path_normalize qd c undefined]
    by simp
next
  fix r c'
  assume "convertQuestion path_normalize qd c = (Inr r, c')"
  then show "points r = (case lastParam (js ''cost'') (wagerParams qd) of
                       None \<Rightarrow> parseInt (price qd)
                     | Some p \<Rightarrow> parseInt (ToString (param_text p)))"
    by (rule convertQuestion_fields(2))
next
  fix str
  show "(parseInt str = NaN) =
         (let S = dropWhile isWhiteSpace str
          in takeWhile isDigit (if S \<noteq> [] \<and> (hd S = 43 \<or> hd S = 45) then tl S else S) = [])"
    by (simp add: parseInt_def Let_def)
qed

theorem malformed_integer_not_raised_witness:
  "convertQuestion id
     \<lparr> price = js ''100'', right = [\<lparr> answer = [js ''yes''] \<rparr>], info = None,
       qtype_node = Some [\<lparr> type_name = js ''cat'',
         param = Some [\<lparr> param_name = js ''cost'', param_text = Some (js ''a lot'') \<rparr>] \<rparr>],
       scenario = [\<lparr> atom = [Literal (js ''What?'')] \<rparr>] \<rparr> []
   = (Inr \<lparr> points = NaN, mode = js ''delegate'', qtype = js ''plain'',
            answers = [js ''yes''],
            task = \<lparr> task_text = js ''What?'', images = [], sounds = [], video = [] \<rparr>,
            explanation = Some [] \<rparr>, [])
   \<and> parseInt (js ''a lot'') = NaN"
proof -
  let ?t = "\<lparr> type_name = js ''cat'',
         param = Some [\<lparr> param_name = js ''cost'', param_text = Some (js ''a lot'') \<rparr>] \<rparr>"
  let ?qd = "\<lparr> price = js ''100'', right = [\<lparr> answer = [js ''yes''] \<rparr>], info = None,
       qtype_node = Some [?t], scenario = [\<lparr> atom = [Literal (js ''What?'')] \<rparr>] \<rparr>"
  let ?r = "\<lparr> points = NaN, mode = js ''delegate'', qtype = js ''plain'',
            answers = [js ''yes''],
            task = \<lparr> task_text = js ''What?'', images = [], sounds = [], video = [] \<rparr>,
            explanation = Some [] \<rparr>"
  have run: "convertQuestion id ?qd [] = (Inr ?r, [])"
    by (simp add: convertQuestion_def newQuestion_def setInfo_def setType_def setScenario_def
        parseInt_def ToString_def isWhiteSpace_def isDigit_def js_def)
  have "(parseInt (js ''a lot'') = NaN) =
         (let S = dropWhile isWhiteSpace (js ''a lot'')
          in takeWhile isDigit (if S \<noteq> [] \<and> (hd S = 43 \<or> hd S = 45) then tl S else S) = [])"
    using malformed_integer_not_raised [where path_normalize = id and qd = ?qd and c = "[]"]
    by blast
  then have "parseInt (js ''a lot'') = NaN"
    by (simp add: isWhiteSpace_def isDigit_def js_def)
  with run show ?thesis by simp
qed

text \<open>
  The claim C4 says that a malformed price raises a mapping error. The question with the price
  \<^verbatim>\<open>abc\<close> is converted, with \<^verbatim>\<open>NaN\<close> as its points.
\<close>

theorem malformed_price_counterexample:
  "convertQuestion id
     \<lparr> price = js ''abc'', right = [\<lparr> answer = [js ''yes''] \<rparr>], info = None,
       qtype_node = None, scenario = [\<lparr> atom = [Literal (js ''What?'')] \<rparr>] \<rparr> []
   = (Inr \<lparr> points = NaN, mode = js ''default'', qtype = js ''plain'',
            answers = [js ''yes''],
            task = \<lparr> task_text = js ''What?'', images = [], sounds = [], video = [] \<rparr>,
            explanation = Some [] \<rparr>, [])"
  by (simp add: convertQuestion_def newQuestion_def setInfo_def setType_def setScenario_def
      parseInt_def isWhiteSpace_def isDigit_def js_def)

section \<open>Properties of the file name recovery\<close>

lemma decodeURIComponent_no_escape:
  "37 \<notin> set s \<Longrightarrow> decodeURIComponent s = Inr s"
  by (induction s) simp_all

text \<open>
  The branch for Unicode names is never taken: every name goes through code page 866 and the
  decoding of percent escapes.
\<close>

lemma decodedFileName_cp866:
  "decodedFileName e = decodeURIComponent (map cp866 (pathBuffer e))"
  by (simp add: decodedFileName_def isUnicode_def)

text \<open>
  C7. The recovery is to return the path of an entry unchanged when the stored path is already
  valid Unicode text. The code decodes the stored bytes of every entry as code page 866: the
  name \<^verbatim>\<open>U+043A U+043E U+0442 .png\<close>, stored as UTF-8 with the Unicode flag set, comes
  back as ten code units of box-drawing characters and Cyrillic capitals instead of its own
  seven.
\<close>

theorem unicode_name_decoded_as_cp866:
  "decodedFileName
     \<lparr> path = [1082, 1086, 1090, 46, 112, 110, 103],
       pathBuffer = [208, 186, 208, 190, 209, 130, 46, 112, 110, 103],
       unicodeFlag = True \<rparr>
   = Inr [9576, 9553, 9576, 9563, 9572, 1042, 46, 112, 110, 103]"
  by (simp add: decodedFileName_def isUnicode_def cp866_def cp866_box_def)

section \<open>Media paths\<close>

text \<open>
  On a text that begins with the marker \<^verbatim>\<open>@\<close>, and on a text without any \<^verbatim>\<open>@\<close>, the path
  is the text without its leading marker, normalized.
\<close>

lemma mediaPath_marker:
  "mediaPath path_normalize (Some (64 # s)) = Inr (path_normalize s)"
  "64 \<notin> set s \<Longrightarrow> mediaPath path_normalize (Some s) = Inr (path_normalize s)"
  by (simp_all add: mediaPath_def remove1_idem)

text \<open>
  C6. For a scenario entry of kind \<^verbatim>\<open>image\<close>, \<^verbatim>\<open>voice\<close> or \<^verbatim>\<open>video\<close> the path appended
  is to be the text with a leading \<^verbatim>\<open>@\<close> stripped and nothing else removed. The code removes
  the first \<^verbatim>\<open>@\<close> wherever it stands: for the text \<^verbatim>\<open>https://example.com/pic@2x.png\<close>,
  which has no leading marker, the path appended has lost the \<^verbatim>\<open>@\<close> inside the name.
\<close>

theorem inner_at_sign_removed:
  "convertQuestion path_normalize
     \<lparr> price = js ''100'', right = [\<lparr> answer = [js ''yes''] \<rparr>], info = None,
       qtype_node = None,
       scenario = [\<lparr> atom = [Media \<lparr> ms_type = js ''image'',
                                      ms_text = Some (js ''https://example.com/pic@2x.png'') \<rparr>] \<rparr>] \<rparr> []
   = (Inr \<lparr> points = Num 100, mode = js ''default'', qtype = js ''media'',
            answers = [js ''yes''],
            task = \<lparr> task_text = [],
                     images = [path_normalize (js ''https://example.com/pic2x.png'')],
                     sounds = [], video = [] \<rparr>,
            explanation = Some [] \<rparr>, [])"
  by (simp add: convertQuestion_def newQuestion_def setInfo_def setType_def setScenario_def
      setQuestionMediaTask_def mediaPath_def parseInt_def isWhiteSpace_def isDigit_def js_def)

section \<open>Properties of the run\<close>

text \<open>
  C5. A run that fails is to print a diagnostic and exit with a non-zero code, unless the
  failure is a "not found" error of the cleanup. The code does so only in the two checks before
  the chain (last run below). A failure inside the chain leaves the exit code 0: malformed XML
  prints the diagnostic and exits with 0 (first run), a missing \<^verbatim>\<open>content.xml\<close> is a
  "not found" error outside the cleanup and prints nothing (second run), and a cleanup error
  other than "not found" never reaches the handler (third run).
\<close>

theorem failed_run_exits_zero:
  "main path_normalize
     \<lparr> extname = js ''.siq'', zipFilePath = js ''/games/pack.siq'', zipExists = True,
       unzipped = None, readFile = None,
       parsed = Inl (SystemError None (js ''Unclosed root tag'')),
       written = None, renamedExists = False, removedOld = None, renamed = None,
       cleanup = [None, None, None] \<rparr>
   = ([FailedToParse (SystemError None (js ''Unclosed root tag''))], 0)
   \<and> main path_normalize
     \<lparr> extname = js ''.siq'', zipFilePath = js ''/games/pack.siq'', zipExists = True,
       unzipped = None,
       readFile = Some (SystemError (Some (js ''ENOENT'')) (js ''no such file or directory'')),
       parsed = Inr None,
       written = None, renamedExists = False, removedOld = None, renamed = None,
       cleanup = [None, None, None] \<rparr>
   = ([], 0)
   \<and> main path_normalize
     \<lparr> extname = js ''.siq'', zipFilePath = js ''/games/pack.siq'', zipExists = True,
       unzipped = None, readFile = None,
       parsed = Inr (Some \<lparr> pkg_id = js ''p1'', pkg_name = js ''Pack'', pkg_version = js ''4'',
                              pkg_difficulty = js ''5'', pkg_restriction = [], pkg_date = [],
                              pkg_info = [], rounds = [\<lparr> round = [] \<rparr>] \<rparr>),
       written = None, renamedExists = False, removedOld = None, renamed = None,
       cleanup = [Some (SystemError (Some (js ''EACCES'')) (js ''permission denied'')),
                  None, None] \<rparr>
   = ([], 0)
   \<and> main path_normalize
     \<lparr> extname = js ''.zip'', zipFilePath = js ''/games/pack.zip'', zipExists = True,
       unzipped = None, readFile = None, parsed = Inr None,
       written = None, renamedExists = False, removedOld = None, renamed = None,
       cleanup = [] \<rparr>
   = ([Yellow (js ''Unsupported file extension'')], 1)"
  by (simp add: main_def chain_def onRejected_def allSettled_def convertToJSON_def)
     (simp add: js_def)

end
